theory Spec2Isabelle
  imports Main "HOL-Library.Word"
begin

unbundle bit_operations_syntax

section \<open>The kernel and C library interface used by smb2mv.c\<close>

text \<open>
  smb2mv.c is a straight-line sequence of system calls. The kernel is not part of the
  program, so it is a parameter of the model: a \<open>world\<close> answers every call, and the
  theorems hold for every world. A failing call answers \<open>Inl e\<close> (the C function returns
  -1 and sets \<open>errno\<close> to \<open>e\<close>), a successful one \<open>Inr v\<close>.
\<close>

type_synonym path = string
type_synonym errno = nat

definition ENOENT :: errno where
  "ENOENT = 2"

text \<open>The flags of \<open>open(2)\<close>; a flag word \<open>A | B\<close> is the set \<open>{A, B}\<close>.\<close>

datatype oflag = O_RDONLY | O_WRONLY | O_RDWR | O_CREAT | O_EXCL | O_TRUNC

text \<open>\<open>struct stat\<close> and \<open>struct statfs\<close>, with the one field each that the program reads
  (\<open>f_type\<close> is a \<open>long\<close>, 64 bits wide on LP64).\<close>

record stat =
  st_mode :: "32 word"

record statfs =
  f_type :: "64 word"

definition S_IFMT :: "32 word" where
  "S_IFMT = 0xF000"

definition S_IFDIR :: "32 word" where
  "S_IFDIR = 0x4000"

definition CIFS_SUPER_MAGIC :: "64 word" where
  "CIFS_SUPER_MAGIC = 0xFF534D42"

definition SMB2_SUPER_MAGIC :: "64 word" where
  "SMB2_SUPER_MAGIC = 0xFE534D42"

definition CIFS_IOCTL_MAGIC :: "32 word" where
  "CIFS_IOCTL_MAGIC = 0xCF"

text \<open>\<open>_IOW(type, nr, size)\<close> of the generic Linux ioctl encoding: direction
  \<open>_IOC_WRITE = 1\<close> in bits 30-31, the argument size in bits 16-29, the type in bits
  8-15, the number in bits 0-7.\<close>

definition IOW :: "32 word \<Rightarrow> 32 word \<Rightarrow> 32 word \<Rightarrow> 32 word" where
  "IOW ty nr sz = push_bit 30 1 OR push_bit 16 sz OR push_bit 8 ty OR nr"

definition CIFS_IOC_COPYCHUNK_FILE :: "32 word" where
  "CIFS_IOC_COPYCHUNK_FILE = IOW CIFS_IOCTL_MAGIC 3 4"

text \<open>The file mode \<open>0644\<close> (octal).\<close>

definition MODE_0644 :: nat where
  "MODE_0644 = 6 * 64 + 4 * 8 + 4"

text \<open>Every system call the program issues, with its arguments and the kernel's answer.\<close>

datatype event =
    EvOpen path "oflag set" "nat option" "errno + nat"
  | EvStat path "errno + stat"
  | EvFstatfs int "errno + statfs"
  | EvIoctl int "32 word" int "errno + unit"
  | EvUnlink path "errno + unit"
  | EvClose int "errno + unit"

text \<open>
  The world. Besides the system calls it fixes what the C library leaves open:
  \<^item> \<open>w_alloc_ok k\<close>: whether the \<open>k\<close>-th allocation of the run (\<open>strdup\<close>,
    \<open>vasprintf\<close>), counted from 0, succeeds;
  \<^item> \<open>w_basename p\<close>: the result of \<open>basename(p)\<close> and the contents of the buffer \<open>p\<close>
    afterwards (POSIX \<open>basename\<close> from \<open>libgen.h\<close> may modify its argument);
  \<^item> \<open>w_strerror e\<close>: the text that \<open>%m\<close> prints for \<open>errno = e\<close>;
  \<^item> \<open>w_freed str\<close>: what reading a buffer that held \<open>str\<close> gives after \<open>free\<close>.
\<close>

record world =
  w_open :: "path \<Rightarrow> oflag set \<Rightarrow> nat option \<Rightarrow> errno + nat"
  w_stat :: "path \<Rightarrow> errno + stat"
  w_fstatfs :: "int \<Rightarrow> errno + statfs"
  w_ioctl :: "int \<Rightarrow> 32 word \<Rightarrow> int \<Rightarrow> errno + unit"
  w_unlink :: "path \<Rightarrow> errno + unit"
  w_close :: "int \<Rightarrow> errno + unit"
  w_alloc_ok :: "nat \<Rightarrow> bool"
  w_basename :: "path \<Rightarrow> string \<times> path"
  w_strerror :: "errno \<Rightarrow> string"
  w_freed :: "string \<Rightarrow> string"

text \<open>The state of the process: \<open>errno\<close>, the system calls issued so far, the lines
  written to standard error, and the number of allocations made.\<close>

record state =
  errno :: errno
  trace :: "event list"
  stderr :: "string list"
  allocs :: nat

definition init_state :: state where
  "init_state = \<lparr>errno = 0, trace = [], stderr = [], allocs = 0\<rparr>"

text \<open>A function either returns a value or has called \<open>abort()\<close>.\<close>

datatype 'a res = Abort state | Ret 'a state

fun final :: "'a res \<Rightarrow> state" where
  "final (Abort s) = s"
| "final (Ret _ s) = s"

definition fprintf_stderr :: "string \<Rightarrow> state \<Rightarrow> state" where
  "fprintf_stderr msg s = s\<lparr>stderr := stderr s @ [msg]\<rparr>"

text \<open>A system call is logged; a failing one sets \<open>errno\<close>.\<close>

definition syscall :: "event \<Rightarrow> errno + 'a \<Rightarrow> state \<Rightarrow> state" where
  "syscall ev r s =
     (let s' = s\<lparr>trace := trace s @ [ev]\<rparr>
      in case r of Inl e \<Rightarrow> s'\<lparr>errno := e\<rparr> | Inr _ \<Rightarrow> s')"

text \<open>The \<open>int\<close> a call returns: -1 on failure, 0 on success.\<close>

definition rc :: "errno + 'a \<Rightarrow> int" where
  "rc r = (case r of Inl _ \<Rightarrow> -1 | Inr _ \<Rightarrow> 0)"

definition sys_open :: "world \<Rightarrow> path \<Rightarrow> oflag set \<Rightarrow> nat option \<Rightarrow> state \<Rightarrow> int \<times> state" where
  "sys_open w p fl m s =
     (let r = w_open w p fl m
      in ((case r of Inl _ \<Rightarrow> -1 | Inr fd \<Rightarrow> int fd), syscall (EvOpen p fl m r) r s))"

definition sys_stat :: "world \<Rightarrow> path \<Rightarrow> state \<Rightarrow> (errno + stat) \<times> state" where
  "sys_stat w p s = (let r = w_stat w p in (r, syscall (EvStat p r) r s))"

definition sys_fstatfs :: "world \<Rightarrow> int \<Rightarrow> state \<Rightarrow> (errno + statfs) \<times> state" where
  "sys_fstatfs w fd s = (let r = w_fstatfs w fd in (r, syscall (EvFstatfs fd r) r s))"

definition sys_ioctl :: "world \<Rightarrow> int \<Rightarrow> 32 word \<Rightarrow> int \<Rightarrow> state \<Rightarrow> int \<times> state" where
  "sys_ioctl w fd req arg s =
     (let r = w_ioctl w fd req arg in (rc r, syscall (EvIoctl fd req arg r) r s))"

definition sys_unlink :: "world \<Rightarrow> path \<Rightarrow> state \<Rightarrow> int \<times> state" where
  "sys_unlink w p s = (let r = w_unlink w p in (rc r, syscall (EvUnlink p r) r s))"

definition sys_close :: "world \<Rightarrow> int \<Rightarrow> state \<Rightarrow> int \<times> state" where
  "sys_close w fd s = (let r = w_close w fd in (rc r, syscall (EvClose fd r) r s))"

section \<open>The functions of smb2mv.c\<close>

text \<open>\<open>xasprintf\<close>: \<open>str\<close> is the formatted text; \<open>vasprintf\<close> allocates it and returns its
  length, or -1 when the allocation fails.\<close>

definition xasprintf :: "world \<Rightarrow> string \<Rightarrow> state \<Rightarrow> (string \<times> int) res" where
  "xasprintf w str s =
     (let n = (if w_alloc_ok w (allocs s) then int (length str) else -1);
          s = s\<lparr>allocs := Suc (allocs s)\<rparr>
      in if n = -1 then Abort (fprintf_stderr ''out of memory!\<newline>'' s)
         else Ret (str, n) s)"

definition xstrdup :: "world \<Rightarrow> string \<Rightarrow> state \<Rightarrow> string res" where
  "xstrdup w str s =
     (let d = (if w_alloc_ok w (allocs s) then Some str else None);
          s = s\<lparr>allocs := Suc (allocs s)\<rparr>
      in case d of
           None \<Rightarrow> Abort (fprintf_stderr ''out of memory!\<newline>'' s)
         | Some d \<Rightarrow> Ret d s)"

definition clone_file_cifs :: "world \<Rightarrow> int \<Rightarrow> int \<Rightarrow> state \<Rightarrow> int \<times> state" where
  "clone_file_cifs w src_fd dst_fd s =
     (let (ret, s) = sys_ioctl w dst_fd CIFS_IOC_COPYCHUNK_FILE src_fd s
      in if ret \<noteq> 0
         then (-1, fprintf_stderr (''server-side-copy failed: '' @ w_strerror w (errno s) @ ''\<newline>'') s)
         else (ret, s))"

text \<open>\<open>fstatfs\<close> returns -1 when it fails and 0 otherwise, so the two tests of
  \<open>check_is_cifs\<close>, \<open>ret == -1\<close> for the source and \<open>ret != 0\<close> for the destination, both
  are the case \<open>Inl\<close>.\<close>

definition check_is_cifs :: "world \<Rightarrow> int \<Rightarrow> int \<Rightarrow> state \<Rightarrow> bool \<times> state" where
  "check_is_cifs w src_fd dest_fd s =
     (let (r, s) = sys_fstatfs w src_fd s
      in case r of
           Inl _ \<Rightarrow> (False, fprintf_stderr
                       (''failed to stat source file system: '' @ w_strerror w (errno s) @ ''\<newline>'') s)
         | Inr sfs \<Rightarrow>
             if f_type sfs \<noteq> CIFS_SUPER_MAGIC \<and> f_type sfs \<noteq> SMB2_SUPER_MAGIC
             then (False, fprintf_stderr ''source file system is not CIFS/SMB2!\<newline>'' s)
             else
               (let (r, s) = sys_fstatfs w dest_fd s
                in case r of
                     Inl _ \<Rightarrow> (False, fprintf_stderr
                                 (''failed to stat destination file system: '' @ w_strerror w (errno s) @ ''\<newline>'') s)
                   | Inr sfs \<Rightarrow>
                       if f_type sfs \<noteq> CIFS_SUPER_MAGIC \<and> f_type sfs \<noteq> SMB2_SUPER_MAGIC
                       then (False, fprintf_stderr ''destination file system is not CIFS/SMB2!\<newline>'' s)
                       else (True, s)))"

text \<open>\<open>open_dest\<close> returns the descriptor (or -1) and the contents of the buffer \<open>src\<close>,
  which \<open>basename\<close> may have changed. In the directory branch the message is printed from
  \<open>new_dst\<close> after it was freed; \<open>free\<close> leaves \<open>errno\<close> as it is.\<close>

definition open_dest :: "world \<Rightarrow> path \<Rightarrow> path \<Rightarrow> state \<Rightarrow> (int \<times> path) res" where
  "open_dest w src dst s =
     (let (r, s) = sys_stat w dst s
      in case r of
           Inl _ \<Rightarrow>
             if errno s = ENOENT
             then
               (let (ret, s) = sys_open w dst {O_CREAT, O_WRONLY} (Some MODE_0644) s
                in if ret \<noteq> -1 then Ret (ret, src) s
                   else Ret (ret, src)
                          (fprintf_stderr (''failed to create '' @ dst @ '': ''
                             @ w_strerror w (errno s) @ ''\<newline>'') s))
             else Ret (-1, src)
                    (fprintf_stderr (''failed to create '' @ dst @ '': ''
                       @ w_strerror w (errno s) @ ''\<newline>'') s)
         | Inr st \<Rightarrow>
             if st_mode st AND S_IFMT = S_IFDIR
             then
               (let (fname, src) = w_basename w src
                in case xasprintf w (dst @ ''/'' @ fname) s of
                     Abort s \<Rightarrow> Abort s
                   | Ret (new_dst, _) s \<Rightarrow>
                       (let (ret, s) = sys_open w new_dst {O_CREAT, O_WRONLY} (Some MODE_0644) s
                        in if ret = -1
                           then Ret (ret, src)
                                  (fprintf_stderr (''failed to create '' @ w_freed w new_dst @ '': ''
                                     @ w_strerror w (errno s) @ ''\<newline>'') s)
                           else Ret (ret, src) s))
             else Ret (-1, src) (fprintf_stderr (''refusing to overwrite '' @ dst @ ''\<newline>'') s))"

text \<open>The two cleanup labels of \<open>main\<close>, entered with the current value of \<open>ret\<close>.\<close>

definition err_src_close :: "world \<Rightarrow> int \<Rightarrow> int \<Rightarrow> state \<Rightarrow> int res" where
  "err_src_close w src_fd ret s =
     (let (c, s) = sys_close w src_fd s
      in if c \<noteq> 0
         then Ret 1 (fprintf_stderr (''failed to close src file: '' @ w_strerror w (errno s) @ ''\<newline>'') s)
         else Ret ret s)"

definition err_dst_close :: "world \<Rightarrow> int \<Rightarrow> int \<Rightarrow> int \<Rightarrow> state \<Rightarrow> int res" where
  "err_dst_close w src_fd dst_fd ret s =
     (let (c, s) = sys_close w dst_fd s
      in if c \<noteq> 0
         then err_src_close w src_fd 1
                (fprintf_stderr (''failed to close dst file: '' @ w_strerror w (errno s) @ ''\<newline>'') s)
         else err_src_close w src_fd ret s)"

text \<open>\<open>fprintf\<close> of glibc prints \<open>(null)\<close> for a null \<open>%s\<close> argument, which is what
  \<open>argv[0]\<close> is when \<open>argc = 0\<close>.\<close>

definition progname :: "string list \<Rightarrow> string" where
  "progname argv = (case argv of [] \<Rightarrow> ''(null)'' | a # _ \<Rightarrow> a)"

text \<open>
  \<open>main\<close>. The local \<open>ret\<close> is declared without an initialiser (\<open>int src_fd, dst_fd, ret;\<close>),
  and two paths reach \<open>return ret\<close> without assigning it: the usage branch
  (\<open>goto err_out\<close>) and the branch of a failed \<open>unlink\<close> (\<open>goto err_dst_close\<close>). What
  is read there is whatever the variable happens to hold; that value is the parameter
  \<open>ret\<close> of the model. \<open>argc\<close> is the length of \<open>argv\<close>. The result is the value
  \<open>main\<close> returns, the exit status of the process.
\<close>

definition main :: "int \<Rightarrow> string list \<Rightarrow> world \<Rightarrow> int res" where
  "main ret argv w =
     (let argc = int (length argv); s = init_state
      in if argc \<noteq> 3
         then Ret ret (fprintf_stderr (''Usage: '' @ progname argv @ '' SRC DST\<newline>'') s)
         else
           (case xstrdup w (argv ! 1) s of
              Abort s \<Rightarrow> Abort s
            | Ret src_file s \<Rightarrow>
                (case xstrdup w (argv ! 2) s of
                   Abort s \<Rightarrow> Abort s
                 | Ret dst_file s \<Rightarrow>
                     (let (src_fd, s) = sys_open w src_file {O_RDWR} None s
                      in if src_fd = -1
                         then Ret 1 (fprintf_stderr (''failed to open '' @ src_file @ '': ''
                                       @ w_strerror w (errno s) @ ''\<newline>'') s)
                         else
                           (case open_dest w src_file dst_file s of
                              Abort s \<Rightarrow> Abort s
                            | Ret (dst_fd, src_file) s \<Rightarrow>
                                if dst_fd = -1 then err_src_close w src_fd 1 s
                                else
                                  (let (ok, s) = check_is_cifs w src_fd dst_fd s
                                   in if \<not> ok then err_dst_close w src_fd dst_fd 1 s
                                      else
                                        (let (r, s) = clone_file_cifs w src_fd dst_fd s
                                         in if r \<noteq> 0 then err_dst_close w src_fd dst_fd 1 s
                                            else
                                              (let (r, s) = sys_unlink w src_file s
                                               in if r = -1
                                                  then err_dst_close w src_fd dst_fd ret
                                                         (fprintf_stderr (''unable to remove source file: ''
                                                            @ w_strerror w (errno s) @ ''\<newline>'') s)
                                                  else err_dst_close w src_fd dst_fd 0 s))))))))"

section \<open>The vocabulary of the specification\<close>

text \<open>A filesystem query is accepted when it succeeds with one of the two magic values
  the specification names.\<close>

definition fs_accepted :: "errno + statfs \<Rightarrow> bool" where
  "fs_accepted r =
     (case r of Inl _ \<Rightarrow> False | Inr sfs \<Rightarrow> f_type sfs = 0xFF534D42 \<or> f_type sfs = 0xFE534D42)"

text \<open>A filesystem query that succeeds with any other type.\<close>

definition fs_unsupported :: "errno + statfs \<Rightarrow> bool" where
  "fs_unsupported r =
     (case r of Inl _ \<Rightarrow> False | Inr sfs \<Rightarrow> f_type sfs \<noteq> 0xFF534D42 \<and> f_type sfs \<noteq> 0xFE534D42)"

text \<open>The message of the validator for the side that failed.\<close>

definition source_msg :: "world \<Rightarrow> errno + statfs \<Rightarrow> string" where
  "source_msg w r =
     (case r of
        Inl e \<Rightarrow> ''failed to stat source file system: '' @ w_strerror w e @ ''\<newline>''
      | Inr _ \<Rightarrow> ''source file system is not CIFS/SMB2!\<newline>'')"

definition destination_msg :: "world \<Rightarrow> errno + statfs \<Rightarrow> string" where
  "destination_msg w r =
     (case r of
        Inl e \<Rightarrow> ''failed to stat destination file system: '' @ w_strerror w e @ ''\<newline>''
      | Inr _ \<Rightarrow> ''destination file system is not CIFS/SMB2!\<newline>'')"

text \<open>The report of a system error \<open>e\<close> while creating \<open>p\<close>.\<close>

definition failed_to_create :: "world \<Rightarrow> path \<Rightarrow> errno \<Rightarrow> string" where
  "failed_to_create w p e = ''failed to create '' @ p @ '': '' @ w_strerror w e @ ''\<newline>''"

text \<open>The path resolver of the specification: the destination is \<open>DST\<close> itself when it
  does not exist, \<open>DST/basename(SRC)\<close> when it is a directory, and there is none
  otherwise. \<open>dest_fd\<close> is the descriptor the kernel hands out for it.\<close>

definition dest_path :: "world \<Rightarrow> path \<Rightarrow> path \<Rightarrow> path option" where
  "dest_path w src dst =
     (case w_stat w dst of
        Inl e \<Rightarrow> if e = ENOENT then Some dst else None
      | Inr st \<Rightarrow> if st_mode st AND S_IFMT = S_IFDIR
                  then Some (dst @ ''/'' @ fst (w_basename w src)) else None)"

definition dest_fd :: "world \<Rightarrow> path \<Rightarrow> path \<Rightarrow> nat option" where
  "dest_fd w src dst =
     (case dest_path w src dst of
        None \<Rightarrow> None
      | Some p \<Rightarrow>
          (case w_open w p {O_CREAT, O_WRONLY} (Some MODE_0644) of
             Inl _ \<Rightarrow> None
           | Inr b \<Rightarrow> Some b))"

text \<open>Opening, destination resolution and filesystem validation all succeed in world
  \<open>w\<close>; \<open>clone_confirmed\<close>: and so does the clone ioctl on the two descriptors.\<close>

definition validated :: "world \<Rightarrow> path \<Rightarrow> path \<Rightarrow> bool" where
  "validated w src dst =
     (case (w_open w src {O_RDWR} None, dest_fd w src dst) of
        (Inr a, Some b) \<Rightarrow> fs_accepted (w_fstatfs w (int a)) \<and> fs_accepted (w_fstatfs w (int b))
      | _ \<Rightarrow> False)"

definition clone_confirmed :: "world \<Rightarrow> path \<Rightarrow> path \<Rightarrow> bool" where
  "clone_confirmed w src dst =
     (case (w_open w src {O_RDWR} None, dest_fd w src dst) of
        (Inr a, Some b) \<Rightarrow>
           validated w src dst \<and> w_ioctl w (int b) CIFS_IOC_COPYCHUNK_FILE (int a) = Inr ()
      | _ \<Rightarrow> False)"

text \<open>SRC, respectively the destination, can be opened and its descriptor is on a
  filesystem of another type.\<close>

definition src_unsupported :: "world \<Rightarrow> path \<Rightarrow> bool" where
  "src_unsupported w src =
     (case w_open w src {O_RDWR} None of
        Inl _ \<Rightarrow> False
      | Inr a \<Rightarrow> fs_unsupported (w_fstatfs w (int a)))"

definition dst_unsupported :: "world \<Rightarrow> path \<Rightarrow> path \<Rightarrow> bool" where
  "dst_unsupported w src dst =
     (case dest_fd w src dst of
        None \<Rightarrow> False
      | Some b \<Rightarrow> fs_unsupported (w_fstatfs w (int b)))"

text \<open>\<open>p\<close> is not writable by the caller: the kernel refuses to open it with either
  access mode that includes writing.\<close>

definition denies_write :: "world \<Rightarrow> path \<Rightarrow> bool" where
  "denies_write w p = (isl (w_open w p {O_WRONLY} None) \<and> isl (w_open w p {O_RDWR} None))"

text \<open>Classes of events: an unlink, an unlink that failed, a clone ioctl (attempted), a
  clone ioctl that returned success, a close, a close that failed.\<close>

fun is_unlink :: "event \<Rightarrow> bool" where
  "is_unlink (EvUnlink _ _) = True"
| "is_unlink _ = False"

fun is_failed_unlink :: "event \<Rightarrow> bool" where
  "is_failed_unlink (EvUnlink _ (Inl _)) = True"
| "is_failed_unlink _ = False"

fun is_clone :: "event \<Rightarrow> bool" where
  "is_clone (EvIoctl _ _ _ _) = True"
| "is_clone _ = False"

fun is_clone_ok :: "event \<Rightarrow> bool" where
  "is_clone_ok (EvIoctl _ req _ (Inr _)) = (req = CIFS_IOC_COPYCHUNK_FILE)"
| "is_clone_ok _ = False"

fun is_close :: "event \<Rightarrow> bool" where
  "is_close (EvClose _ _) = True"
| "is_close _ = False"

fun is_failed_close :: "event \<Rightarrow> bool" where
  "is_failed_close (EvClose _ (Inl _)) = True"
| "is_failed_close _ = False"

text \<open>Events that neither clone nor unlink nor close.\<close>

definition quiet :: "event list \<Rightarrow> bool" where
  "quiet evs = (\<forall>e\<in>set evs. \<not> is_clone e \<and> \<not> is_unlink e \<and> \<not> is_close e)"

text \<open>A monitor for the order of events: every unlink comes directly after a clone
  ioctl that returned success. The flag says whether the previous event was one.\<close>

fun unlink_after_clone :: "bool \<Rightarrow> event list \<Rightarrow> bool" where
  "unlink_after_clone c [] = True"
| "unlink_after_clone c (e # tr) = ((is_unlink e \<longrightarrow> c) \<and> unlink_after_clone (is_clone_ok e) tr)"

text \<open>A file was created on disk: \<open>stat\<close> reported the path absent and the next call, an
  \<open>open\<close> of that path with \<open>O_CREAT\<close>, succeeded.\<close>

fun file_created :: "event list \<Rightarrow> bool" where
  "file_created (EvStat p (Inl e) # EvOpen q fl m (Inr fd) # tr) =
     ((e = ENOENT \<and> q = p \<and> O_CREAT \<in> fl) \<or> file_created tr)"
| "file_created (e # tr) = file_created tr"
| "file_created [] = False"

section \<open>Example worlds\<close>

text \<open>An SMB2 mount with the file \<open>/mnt/a/f\<close> and the directory \<open>/mnt/b\<close>; every call
  succeeds. Descriptors 3 and 4 are the first two free ones of a process.\<close>

definition last_component :: "path \<Rightarrow> string" where
  "last_component p = rev (takeWhile (\<lambda>c. c \<noteq> CHR ''/'') (rev p))"

definition smb_world :: world where
  "smb_world =
     \<lparr>w_open = (\<lambda>p fl m. if p = ''/mnt/a/f'' then Inr 3
                         else if p = ''/mnt/b/g'' \<or> p = ''/mnt/b/f'' then Inr 4
                         else Inl 13),
      w_stat = (\<lambda>p. if p = ''/mnt/b'' then Inr \<lparr>st_mode = 0x41ED\<rparr>
                     else if p = ''/mnt/a/f'' then Inr \<lparr>st_mode = 0x81A4\<rparr>
                     else Inl ENOENT),
      w_fstatfs = (\<lambda>fd. Inr \<lparr>f_type = 0xFE534D42\<rparr>),
      w_ioctl = (\<lambda>fd req arg. Inr ()),
      w_unlink = (\<lambda>p. Inr ()),
      w_close = (\<lambda>fd. Inr ()),
      w_alloc_ok = (\<lambda>k. True),
      w_basename = (\<lambda>p. (last_component p, p)),
      w_strerror = (\<lambda>e. if e = 1 then ''Operation not permitted''
                         else if e = 2 then ''No such file or directory''
                         else if e = 13 then ''Permission denied''
                         else ''Input/output error''),
      w_freed = (\<lambda>str. [])\<rparr>"

text \<open>The same files on a local ext4 filesystem (\<open>EXT4_SUPER_MAGIC = 0xEF53\<close>).\<close>

definition ext4_world :: world where
  "ext4_world = smb_world\<lparr>w_fstatfs := (\<lambda>fd. Inr \<lparr>f_type = 0xEF53\<rparr>)\<rparr>"

text \<open>\<open>/mnt/a/f\<close> is read-only for the caller: an open for writing fails with \<open>EACCES\<close>.\<close>

definition readonly_world :: world where
  "readonly_world =
     smb_world\<lparr>w_open := (\<lambda>p fl m. if p = ''/mnt/a/f'' \<and> (O_WRONLY \<in> fl \<or> O_RDWR \<in> fl)
                                    then Inl 13 else w_open smb_world p fl m)\<rparr>"

text \<open>The server copies the file, but removing the source is refused: with \<open>EACCES\<close> in
  the first world, with \<open>EPERM\<close> in the second.\<close>

definition eacces_unlink_world :: world where
  "eacces_unlink_world = smb_world\<lparr>w_unlink := (\<lambda>p. Inl 13)\<rparr>"

definition eperm_unlink_world :: world where
  "eperm_unlink_world = smb_world\<lparr>w_unlink := (\<lambda>p. Inl 1)\<rparr>"

text \<open>\<open>/mnt/c\<close> cannot be searched: \<open>stat\<close> below it fails with \<open>EACCES\<close>.\<close>

definition noaccess_world :: world where
  "noaccess_world =
     smb_world\<lparr>w_stat := (\<lambda>p. if p = ''/mnt/c/g'' then Inl 13 else w_stat smb_world p)\<rparr>"

section \<open>Auxiliary facts\<close>

lemmas sys_defs = sys_open_def sys_stat_def sys_fstatfs_def sys_ioctl_def sys_unlink_def
  sys_close_def syscall_def rc_def fprintf_stderr_def

lemmas const_defs = ENOENT_def S_IFMT_def S_IFDIR_def CIFS_SUPER_MAGIC_def SMB2_SUPER_MAGIC_def
  CIFS_IOCTL_MAGIC_def IOW_def CIFS_IOC_COPYCHUNK_FILE_def MODE_0644_def

lemmas run_defs = main_def init_state_def progname_def xstrdup_def xasprintf_def open_dest_def
  check_is_cifs_def clone_file_cifs_def err_src_close_def err_dst_close_def Let_def

lemmas world_defs = smb_world_def ext4_world_def readonly_world_def eacces_unlink_world_def
  eperm_unlink_world_def noaccess_world_def last_component_def

subsection \<open>Traces\<close>

lemma quiet_simps [simp]:
  "quiet []"
  "quiet (e # evs) = (\<not> is_clone e \<and> \<not> is_unlink e \<and> \<not> is_close e \<and> quiet evs)"
  "quiet (xs @ ys) = (quiet xs \<and> quiet ys)"
  by (auto simp: quiet_def)

lemma quiet_no_unlink [simp]: "quiet evs \<Longrightarrow> filter is_unlink evs = []"
  by (induction evs) auto

lemma quiet_no_clone [simp]: "quiet evs \<Longrightarrow> filter is_clone evs = []"
  by (induction evs) auto

lemma is_clone_ok_is_clone: "is_clone_ok e \<Longrightarrow> is_clone e"
  by (cases e) auto

lemma is_failed_close_is_close: "is_failed_close e \<Longrightarrow> is_close e"
  by (cases e) auto

lemma is_failed_unlink_is_unlink: "is_failed_unlink e \<Longrightarrow> is_unlink e"
  by (cases e) auto

lemma quiet_no_failed_unlink [simp]: "quiet evs \<Longrightarrow> filter is_failed_unlink evs = []"
  by (induction evs) (auto dest: is_failed_unlink_is_unlink)

lemma quiet_no_failed_close [simp]: "quiet evs \<Longrightarrow> filter is_failed_close evs = []"
  by (induction evs) (auto dest: is_failed_close_is_close)

lemma unlink_after_clone_quiet [simp]:
  "quiet xs \<Longrightarrow> unlink_after_clone False (xs @ ys) = unlink_after_clone False ys"
proof (induction xs)
  case Nil
  then show ?case by simp
next
  case (Cons e xs)
  then have "\<not> is_clone_ok e" using is_clone_ok_is_clone by auto
  with Cons show ?case by simp
qed

lemma unlink_after_clone_quiet' [simp]:
  "quiet xs \<Longrightarrow> unlink_after_clone False xs"
  using unlink_after_clone_quiet [of xs "[]"] by simp

subsection \<open>What each function does to the trace\<close>

lemma check_is_cifs_sum:
  "check_is_cifs w a b s = (ok, s') \<Longrightarrow>
     ok = (fs_accepted (w_fstatfs w a) \<and> fs_accepted (w_fstatfs w b)) \<and>
     (\<exists>evs. trace s' = trace s @ evs \<and> quiet evs)"
  by (auto simp: check_is_cifs_def sys_defs const_defs fs_accepted_def Let_def
        split: sum.splits prod.splits if_splits)

lemma open_dest_sum:
  "open_dest w src dst s = r \<Longrightarrow>
     (\<exists>evs. trace (final r) = trace s @ evs \<and> quiet evs) \<and>
     (\<forall>b src' s'. r = Ret (b, src') s' \<and> b \<noteq> -1 \<longrightarrow>
        (\<exists>n. dest_fd w src dst = Some n \<and> b = int n)) \<and>
     (\<forall>s'. r = Abort s' \<longrightarrow> \<not> w_alloc_ok w (allocs s))"
  by (auto simp: open_dest_def xasprintf_def sys_defs dest_fd_def dest_path_def Let_def
        split: sum.splits prod.splits if_splits)

lemma clone_file_cifs_sum:
  "clone_file_cifs w a b s = (r, s') \<Longrightarrow>
     trace s' = trace s @ [EvIoctl b CIFS_IOC_COPYCHUNK_FILE a (w_ioctl w b CIFS_IOC_COPYCHUNK_FILE a)] \<and>
     (r = 0) = (w_ioctl w b CIFS_IOC_COPYCHUNK_FILE a = Inr ())"
  by (auto simp: clone_file_cifs_def sys_defs Let_def split: sum.splits prod.splits if_splits)

lemma sys_open_sum:
  "sys_open w p fl m s = (fd, s') \<Longrightarrow>
     trace s' = trace s @ [EvOpen p fl m (w_open w p fl m)] \<and> allocs s' = allocs s \<and>
     (case w_open w p fl m of Inl _ \<Rightarrow> fd = -1 | Inr n \<Rightarrow> fd = int n)"
  by (auto simp: sys_defs Let_def split: sum.splits)

lemma sys_unlink_sum:
  "sys_unlink w p s = (r, s') \<Longrightarrow>
     trace s' = trace s @ [EvUnlink p (w_unlink w p)] \<and> (r = -1) = isl (w_unlink w p)"
  by (auto simp: sys_defs Let_def split: sum.splits)

lemma err_src_close_sum:
  "\<exists>s'. err_src_close w a r s = Ret (if w_close w a = Inr () then r else 1) s' \<and>
        trace s' = trace s @ [EvClose a (w_close w a)]"
  by (auto simp: err_src_close_def sys_defs Let_def split: sum.splits)

lemma err_dst_close_sum:
  "\<exists>s'. err_dst_close w a b r s = Ret (if w_close w b = Inr () \<and> w_close w a = Inr () then r else 1) s' \<and>
        trace s' = trace s @ [EvClose b (w_close w b), EvClose a (w_close w a)]"
  by (auto simp: err_dst_close_def err_src_close_def sys_defs Let_def split: sum.splits)

lemma open_dest_refuses:
  assumes "w_stat w dst = Inr st" and "st_mode st AND S_IFMT \<noteq> S_IFDIR"
  shows "open_dest w src dst s =
           Ret (-1, src) (s\<lparr>trace := trace s @ [EvStat dst (Inr st)],
                            stderr := stderr s @ [''refusing to overwrite '' @ dst @ ''\<newline>'']\<rparr>)"
  using assms by (simp add: open_dest_def sys_defs Let_def)

lemma clone_confirmed_validated: "clone_confirmed w src dst \<Longrightarrow> validated w src dst"
  by (auto simp: clone_confirmed_def split: sum.splits option.splits)

lemma unsupported_not_validated:
  "src_unsupported w src \<or> dst_unsupported w src dst \<Longrightarrow> \<not> validated w src dst"
  by (auto simp: src_unsupported_def dst_unsupported_def validated_def fs_unsupported_def
        fs_accepted_def split: sum.splits option.splits)

lemma three_args: "length argv = 3 \<Longrightarrow> \<exists>prog src dst. argv = [prog, src, dst]"
  by (auto simp: length_Suc_conv numeral_3_eq_3)

subsection \<open>The runs of \<open>main\<close> with two arguments\<close>

text \<open>The case analysis follows the program: each \<open>goto\<close> is one leaf.\<close>

lemma main_props:
  fixes ret prog src dst w
  defines "res \<equiv> main ret [prog, src, dst] w"
  shows "length (filter is_unlink (trace (final res))) \<le> 1 \<and>
         unlink_after_clone False (trace (final res)) \<and>
         (filter is_unlink (trace (final res)) \<noteq> [] \<longrightarrow> clone_confirmed w src dst) \<and>
         (filter is_clone (trace (final res)) \<noteq> [] \<longrightarrow> validated w src dst) \<and>
         (filter is_clone (trace (final res)) = [] \<longrightarrow> (\<forall>r s. res = Ret r s \<longrightarrow> r = 1)) \<and>
         (filter is_failed_close (trace (final res)) \<noteq> [] \<longrightarrow> (\<forall>r s. res = Ret r s \<longrightarrow> r = 1)) \<and>
         (filter is_failed_unlink (trace (final res)) \<noteq> [] \<and>
          filter is_failed_close (trace (final res)) = [] \<longrightarrow> (\<forall>r s. res = Ret r s \<longrightarrow> r = ret)) \<and>
         (w_alloc_ok w 0 \<and> w_alloc_ok w 1 \<and> w_alloc_ok w 2 \<longrightarrow> (\<exists>r s. res = Ret r s))"
proof (cases "w_alloc_ok w 0 \<and> w_alloc_ok w 1")
  case False
  then have "\<exists>s. res = Abort s \<and> trace s = []"
    by (auto simp: res_def main_def xstrdup_def init_state_def fprintf_stderr_def Let_def)
  then show ?thesis using False by auto
next
  case True
  define s1 where "s1 = init_state\<lparr>allocs := Suc (allocs init_state)\<rparr>"
  define s2 where "s2 = s1\<lparr>allocs := Suc (allocs s1)\<rparr>"
  have x1: "xstrdup w src init_state = Ret src s1"
    using True by (simp add: xstrdup_def init_state_def s1_def)
  have x2: "xstrdup w dst s1 = Ret dst s2"
    using True by (simp add: xstrdup_def init_state_def s1_def s2_def)
  have s2: "trace s2 = []" "allocs s2 = 2" by (simp_all add: s2_def s1_def init_state_def)
  obtain a s3 where o: "sys_open w src {O_RDWR} None s2 = (a, s3)" by force
  note o' = sys_open_sum [OF o]
  show ?thesis
  proof (cases "w_open w src {O_RDWR} None")
    case (Inl e)
    with o' have "a = -1" by simp
    then have "\<exists>s. res = Ret 1 s \<and> trace s = trace s3"
      by (simp add: res_def main_def x1 x2 o fprintf_stderr_def)
    then show ?thesis using o' s2 Inl by auto
  next
    case (Inr n)
    with o' have a: "a = int n" and a_ok: "a \<noteq> -1" by simp_all
    obtain rd where d: "open_dest w src dst s3 = rd" by simp
    note d' = open_dest_sum [OF d]
    then obtain evs where evs: "trace (final rd) = trace s3 @ evs" "quiet evs" by blast
    show ?thesis
    proof (cases rd)
      case (Abort s4)
      have "res = Abort s4"
        using a_ok by (simp add: res_def main_def x1 x2 o d Abort)
      moreover have "\<not> w_alloc_ok w 2" using d' Abort o' s2 by simp
      ultimately show ?thesis using evs o' s2 Abort by simp
    next
      case (Ret bp s4)
      obtain b src' where bp: "bp = (b, src')" by force
      show ?thesis
      proof (cases "b = -1")
        case True
        have "res = err_src_close w a 1 s4"
          using a_ok by (simp add: res_def main_def x1 x2 o d Ret bp True)
        with err_src_close_sum [of w a 1 s4]
        obtain s' where "res = Ret 1 s'" "trace s' = trace s4 @ [EvClose a (w_close w a)]"
          by auto
        then show ?thesis using evs o' s2 Ret by simp
      next
        case False
        with d' Ret bp obtain m where m: "dest_fd w src dst = Some m" "b = int m" by auto
        obtain ok s5 where c: "check_is_cifs w a b s4 = (ok, s5)" by force
        note c' = check_is_cifs_sum [OF c]
        then obtain evs2 where evs2: "trace s5 = trace s4 @ evs2" "quiet evs2" by blast
        have ok: "ok = validated w src dst"
          using c' Inr m a by (simp add: validated_def)
        have tr5: "trace s5 = EvOpen src {O_RDWR} None (Inr n) # evs @ evs2"
          using evs evs2 o' s2 Ret Inr by simp
        show ?thesis
        proof (cases ok)
          case no: False
          have "res = err_dst_close w a b 1 s5"
            using a_ok False by (simp add: res_def main_def x1 x2 o d Ret bp c no)
          with err_dst_close_sum [of w a b 1 s5]
          obtain s' where "res = Ret 1 s'"
            "trace s' = trace s5 @ [EvClose b (w_close w b), EvClose a (w_close w a)]"
            by auto
          then show ?thesis using tr5 evs evs2 by simp
        next
          case yes: True
          obtain r s6 where cl: "clone_file_cifs w a b s5 = (r, s6)" by force
          note cl' = clone_file_cifs_sum [OF cl]
          show ?thesis
          proof (cases "r = 0")
            case failed: False
            have "res = err_dst_close w a b 1 s6"
              using a_ok False failed by (simp add: res_def main_def x1 x2 o d Ret bp c yes cl)
            with err_dst_close_sum [of w a b 1 s6]
            obtain s' where "res = Ret 1 s'"
              "trace s' = trace s6 @ [EvClose b (w_close w b), EvClose a (w_close w a)]"
              by auto
            then show ?thesis using tr5 evs evs2 cl' ok yes by simp
          next
            case cloned: True
            with cl' have io: "w_ioctl w b CIFS_IOC_COPYCHUNK_FILE a = Inr ()" by simp
            have cc: "clone_confirmed w src dst"
              using io ok yes Inr m a by (simp add: clone_confirmed_def)
            obtain u s7 where un: "sys_unlink w src' s6 = (u, s7)" by force
            note un' = sys_unlink_sum [OF un]
            define s8 where "s8 = (if u = -1
               then fprintf_stderr (''unable to remove source file: ''
                      @ w_strerror w (errno s7) @ ''\<newline>'') s7
               else s7)"
            define r' where "r' = (if u = -1 then ret else 0)"
            have r: "res = err_dst_close w a b r' s8"
              using a_ok False cloned
              by (simp add: res_def main_def x1 x2 o d Ret bp c yes cl un s8_def r'_def)
            have "trace s8 = trace s7" by (simp add: s8_def fprintf_stderr_def)
            with r err_dst_close_sum [of w a b r' s8]
            obtain s' where
              "res = Ret (if w_close w b = Inr () \<and> w_close w a = Inr () then r' else 1) s'"
              "trace s' = trace s7 @ [EvClose b (w_close w b), EvClose a (w_close w a)]"
              by auto
            then show ?thesis using tr5 evs evs2 cl' un' io cc ok yes
              by (cases "w_close w b"; cases "w_close w a"; cases "w_unlink w src'")
                 (simp_all add: r'_def)
          qed
        qed
      qed
    qed
  qed
qed

text \<open>With any other number of arguments the run prints the usage line, issues no system
  call and returns the value of the unassigned \<open>ret\<close>.\<close>

lemma usage_run:
  "length argv \<noteq> 3 \<Longrightarrow>
     main ret argv w =
       Ret ret (init_state\<lparr>stderr := [''Usage: '' @ progname argv @ '' SRC DST\<newline>'']\<rparr>)"
  by (simp add: main_def init_state_def fprintf_stderr_def)

text \<open>A close that fails forces the status 1, whatever happened before.\<close>

lemma failed_close_forces_failure:
  assumes "main ret argv w = Ret r s" and "filter is_failed_close (trace s) \<noteq> []"
  shows "r = 1"
proof (cases "length argv = 3")
  case True
  then obtain prog src dst where argv: "argv = [prog, src, dst]"
    using three_args by blast
  show ?thesis using main_props [of ret prog src dst w] assms by (simp add: argv)
next
  case False
  then have "trace s = []"
    using assms(1) by (auto simp: usage_run init_state_def)
  with assms(2) show ?thesis by simp
qed

text \<open>When the unlink fails and both closes succeed, the status is the value of the
  unassigned \<open>ret\<close>.\<close>

lemma failed_unlink_returns_unassigned:
  assumes "main ret argv w = Ret r s" and "filter is_failed_unlink (trace s) \<noteq> []"
    and "filter is_failed_close (trace s) = []"
  shows "r = ret"
proof (cases "length argv = 3")
  case True
  then obtain prog src dst where argv: "argv = [prog, src, dst]"
    using three_args by blast
  show ?thesis using main_props [of ret prog src dst w] assms by (simp add: argv)
next
  case False
  then show ?thesis using assms(1) by (simp add: usage_run)
qed

section \<open>The claims\<close>

text \<open>
  Claim C1. In every execution the source file is unlinked only after the clone ioctl has
  returned success: there is at most one unlink in the trace, every unlink comes directly
  after a clone ioctl that returned success, and when an unlink was issued at all, then
  the program had two arguments and the open of SRC, the resolution and open of the
  destination, the validation of both filesystems and the clone all succeeded. So if one
  of them fails, unlink is never invoked.
\<close>

theorem unlink_only_after_clone:
  "length (filter is_unlink (trace (final (main ret argv w)))) \<le> 1 \<and>
   unlink_after_clone False (trace (final (main ret argv w))) \<and>
   (filter is_unlink (trace (final (main ret argv w))) \<noteq> [] \<longrightarrow>
      length argv = 3 \<and> clone_confirmed w (argv ! 1) (argv ! 2))"
proof (cases "length argv = 3")
  case True
  then obtain prog src dst where argv: "argv = [prog, src, dst]"
    using three_args by blast
  show ?thesis using main_props [of ret prog src dst w] by (simp add: argv)
next
  case False
  then have "trace (final (main ret argv w)) = []"
    by (simp add: main_def init_state_def fprintf_stderr_def)
  then show ?thesis by simp
qed

theorem unlink_only_after_clone_witness:
  "filter is_unlink (trace (final (main 0 [''smb2mv'', ''/mnt/a/f'', ''/mnt/b/g''] smb_world)))
     = [EvUnlink ''/mnt/a/f'' (Inr ())] \<and>
   unlink_after_clone False (trace (final (main 0 [''smb2mv'', ''/mnt/a/f'', ''/mnt/b/g''] smb_world))) \<and>
   clone_confirmed smb_world ''/mnt/a/f'' ''/mnt/b/g''"
proof -
  have tr: "trace (final (main 0 [''smb2mv'', ''/mnt/a/f'', ''/mnt/b/g''] smb_world)) =
      [EvOpen ''/mnt/a/f'' {O_RDWR} None (Inr 3),
       EvStat ''/mnt/b/g'' (Inl 2),
       EvOpen ''/mnt/b/g'' {O_CREAT, O_WRONLY} (Some 420) (Inr 4),
       EvFstatfs 3 (Inr \<lparr>f_type = 0xFE534D42\<rparr>),
       EvFstatfs 4 (Inr \<lparr>f_type = 0xFE534D42\<rparr>),
       EvIoctl 4 0x4004CF03 3 (Inr ()),
       EvUnlink ''/mnt/a/f'' (Inr ()),
       EvClose 4 (Inr ()), EvClose 3 (Inr ())]"
    by (simp add: run_defs sys_defs const_defs world_defs)
  show ?thesis
    using unlink_only_after_clone [of 0 "[''smb2mv'', ''/mnt/a/f'', ''/mnt/b/g'']" smb_world]
    by (simp add: tr)
qed

text \<open>
  Claim C2. When \<open>dst\<close> exists (\<open>stat\<close> succeeds) and is not a directory, \<open>open_dest\<close>
  returns -1, its only system call is that \<open>stat\<close> (no open, create or truncate), and it
  prints \<open>refusing to overwrite <dst>\<close>. The whole run then returns 1, and its trace is
  the open of SRC alone when that fails, and else the open of SRC, the \<open>stat\<close> and the
  close of SRC: the clone is never attempted. (The two \<open>strdup\<close> calls succeed.)
\<close>

theorem refuse_to_overwrite:
  assumes "w_stat w dst = Inr st" and "st_mode st AND S_IFMT \<noteq> S_IFDIR"
  shows "open_dest w src dst s =
           Ret (-1, src) (s\<lparr>trace := trace s @ [EvStat dst (Inr st)],
                            stderr := stderr s @ [''refusing to overwrite '' @ dst @ ''\<newline>'']\<rparr>) \<and>
         (w_alloc_ok w 0 \<and> w_alloc_ok w 1 \<longrightarrow>
            (\<exists>s'. main ret [prog, src, dst] w = Ret 1 s' \<and>
                  trace s' =
                    (case w_open w src {O_RDWR} None of
                       Inl e \<Rightarrow> [EvOpen src {O_RDWR} None (Inl e)]
                     | Inr a \<Rightarrow> [EvOpen src {O_RDWR} None (Inr a), EvStat dst (Inr st),
                                 EvClose (int a) (w_close w (int a))])))"
proof (intro conjI impI)
  show "open_dest w src dst s =
           Ret (-1, src) (s\<lparr>trace := trace s @ [EvStat dst (Inr st)],
                            stderr := stderr s @ [''refusing to overwrite '' @ dst @ ''\<newline>'']\<rparr>)"
    using assms by (rule open_dest_refuses)
next
  assume "w_alloc_ok w 0 \<and> w_alloc_ok w 1"
  then show "\<exists>s'. main ret [prog, src, dst] w = Ret 1 s' \<and>
                  trace s' =
                    (case w_open w src {O_RDWR} None of
                       Inl e \<Rightarrow> [EvOpen src {O_RDWR} None (Inl e)]
                     | Inr a \<Rightarrow> [EvOpen src {O_RDWR} None (Inr a), EvStat dst (Inr st),
                                 EvClose (int a) (w_close w (int a))])"
    by (cases "w_open w src {O_RDWR} None"; cases "w_close w (int (projr (w_open w src {O_RDWR} None)))")
       (simp_all add: main_def init_state_def xstrdup_def err_src_close_def sys_defs Let_def
          open_dest_refuses [OF assms])
qed

theorem refuse_to_overwrite_witness:
  "w_stat smb_world ''/mnt/a/f'' = Inr \<lparr>st_mode = 0x81A4\<rparr> \<and>
   (0x81A4 :: 32 word) AND S_IFMT \<noteq> S_IFDIR \<and>
   open_dest smb_world ''/mnt/a/f'' ''/mnt/a/f'' init_state =
     Ret (-1, ''/mnt/a/f'')
       \<lparr>errno = 0, trace = [EvStat ''/mnt/a/f'' (Inr \<lparr>st_mode = 0x81A4\<rparr>)],
          stderr = [''refusing to overwrite /mnt/a/f\<newline>''], allocs = 0\<rparr> \<and>
   (\<exists>s'. main 0 [''smb2mv'', ''/mnt/a/f'', ''/mnt/a/f''] smb_world = Ret 1 s' \<and>
         trace s' = [EvOpen ''/mnt/a/f'' {O_RDWR} None (Inr 3),
                     EvStat ''/mnt/a/f'' (Inr \<lparr>st_mode = 0x81A4\<rparr>),
                     EvClose 3 (Inr ())])"
proof -
  have h1: "w_stat smb_world ''/mnt/a/f'' = Inr \<lparr>st_mode = 0x81A4\<rparr>"
    by (simp add: world_defs)
  have h2: "st_mode \<lparr>st_mode = 0x81A4\<rparr> AND S_IFMT \<noteq> S_IFDIR"
    by (simp add: const_defs)
  show ?thesis
    using h1 h2 refuse_to_overwrite [OF h1 h2, of "''/mnt/a/f''" init_state 0 "''smb2mv''"]
    by (simp add: world_defs init_state_def)
qed

text \<open>
  Claim C3, as stated, fails: with SRC on a filesystem of another type and DST absent,
  the run returns 1 without clone or unlink, but \<open>open_dest\<close> has by then created the
  destination file, since the filesystem check works on the two open descriptors.
\<close>

theorem unsupported_fs_destination_created:
  "src_unsupported ext4_world ''/mnt/a/f'' \<and>
   main 0 [''smb2mv'', ''/mnt/a/f'', ''/mnt/b/g''] ext4_world =
     Ret 1
       \<lparr>errno = 2,
          trace =
            [EvOpen ''/mnt/a/f'' {O_RDWR} None (Inr 3),
             EvStat ''/mnt/b/g'' (Inl 2),
             EvOpen ''/mnt/b/g'' {O_CREAT, O_WRONLY} (Some 420) (Inr 4),
             EvFstatfs 3 (Inr \<lparr>f_type = 0xEF53\<rparr>),
             EvClose 4 (Inr ()), EvClose 3 (Inr ())],
          stderr = [''source file system is not CIFS/SMB2!\<newline>''], allocs = 2\<rparr> \<and>
   file_created (trace (final (main 0 [''smb2mv'', ''/mnt/a/f'', ''/mnt/b/g''] ext4_world)))"
  by (simp add: run_defs sys_defs const_defs world_defs src_unsupported_def fs_unsupported_def)

text \<open>
  Claim C3, amended. When SRC or the destination is on a filesystem whose type is not one
  of the two accepted magic values (and no allocation fails), the run returns 1, no clone
  is attempted and nothing is unlinked: SRC stays, and a destination file that
  \<open>open_dest\<close> created stays as well.
\<close>

theorem unsupported_fs_no_clone_no_unlink:
  assumes "src_unsupported w src \<or> dst_unsupported w src dst"
    and "w_alloc_ok w 0" and "w_alloc_ok w 1" and "w_alloc_ok w 2"
  shows "\<exists>s'. main ret [prog, src, dst] w = Ret 1 s' \<and>
              filter is_clone (trace s') = [] \<and> filter is_unlink (trace s') = []"
proof -
  note p = main_props [of ret prog src dst w]
  have nv: "\<not> validated w src dst"
    using assms(1) by (rule unsupported_not_validated)
  from p nv have nc: "filter is_clone (trace (final (main ret [prog, src, dst] w))) = []"
    by blast
  from p nv have nu: "filter is_unlink (trace (final (main ret [prog, src, dst] w))) = []"
    using clone_confirmed_validated by blast
  from p assms(2-4) obtain r s' where r: "main ret [prog, src, dst] w = Ret r s'"
    by blast
  with p nc have "r = 1" by blast
  with r nc nu show ?thesis by simp
qed

theorem unsupported_fs_no_clone_no_unlink_witness:
  "src_unsupported ext4_world ''/mnt/a/f'' \<and>
   (\<exists>s'. main 0 [''smb2mv'', ''/mnt/a/f'', ''/mnt/b/g''] ext4_world = Ret 1 s' \<and>
         filter is_clone (trace s') = [] \<and> filter is_unlink (trace s') = [])"
proof -
  have h: "src_unsupported ext4_world ''/mnt/a/f''"
    by (simp add: src_unsupported_def fs_unsupported_def world_defs)
  have a: "w_alloc_ok ext4_world 0" "w_alloc_ok ext4_world 1" "w_alloc_ok ext4_world 2"
    by (simp_all add: world_defs)
  show ?thesis
    using h unsupported_fs_no_clone_no_unlink [OF disjI1 [OF h] a, of 0 "''smb2mv''" "''/mnt/b/g''"]
    by simp
qed

text \<open>
  Claim C4 (a defect of the code). The clone succeeds and \<open>unlink\<close> fails: the failure
  is reported and the destination is left alone (no second unlink), but \<open>main\<close> jumps
  to \<open>err_dst_close\<close> without assigning \<open>ret\<close>, so the exit status is whatever \<open>ret\<close> held,
  here 0, and not 1.
\<close>

theorem unlink_failure_exit_status:
  "main 0 [''smb2mv'', ''/mnt/a/f'', ''/mnt/b/g''] eacces_unlink_world =
     Ret 0
       \<lparr>errno = 13,
          trace =
            [EvOpen ''/mnt/a/f'' {O_RDWR} None (Inr 3),
             EvStat ''/mnt/b/g'' (Inl 2),
             EvOpen ''/mnt/b/g'' {O_CREAT, O_WRONLY} (Some 420) (Inr 4),
             EvFstatfs 3 (Inr \<lparr>f_type = 0xFE534D42\<rparr>),
             EvFstatfs 4 (Inr \<lparr>f_type = 0xFE534D42\<rparr>),
             EvIoctl 4 0x4004CF03 3 (Inr ()),
             EvUnlink ''/mnt/a/f'' (Inl 13),
             EvClose 4 (Inr ()), EvClose 3 (Inr ())],
          stderr = [''unable to remove source file: Permission denied\<newline>''],
          allocs = 2\<rparr>"
  by (simp add: run_defs sys_defs const_defs world_defs)

text \<open>
  Claim C5 (a defect of the code). With an argument count other than 3 the usage message
  is printed and no system call is issued, but \<open>main\<close> returns \<open>ret\<close> without ever having
  assigned it: the exit status is whatever \<open>ret\<close> held, here 0, and not 1.
\<close>

theorem usage_exit_status:
  "main 0 [''smb2mv''] w =
     Ret 0 \<lparr>errno = 0, trace = [], stderr = [''Usage: smb2mv SRC DST\<newline>''], allocs = 0\<rparr>"
  by (simp add: main_def init_state_def progname_def fprintf_stderr_def)

text \<open>
  Claim C6. \<open>check_is_cifs\<close> returns true exactly when both \<open>fstatfs\<close> queries succeed
  with one of the magic values \<open>0xFF534D42\<close> and \<open>0xFE534D42\<close>. Otherwise it prints one
  message, which names the side that failed: the source when its query is not accepted,
  the destination otherwise. When it returns true it prints nothing.
\<close>

theorem check_is_cifs_accepts_iff:
  "fst (check_is_cifs w src_fd dst_fd s) =
     (fs_accepted (w_fstatfs w src_fd) \<and> fs_accepted (w_fstatfs w dst_fd)) \<and>
   stderr (snd (check_is_cifs w src_fd dst_fd s)) =
     (if \<not> fs_accepted (w_fstatfs w src_fd)
      then stderr s @ [source_msg w (w_fstatfs w src_fd)]
      else if \<not> fs_accepted (w_fstatfs w dst_fd)
      then stderr s @ [destination_msg w (w_fstatfs w dst_fd)]
      else stderr s)"
  by (auto simp: check_is_cifs_def sys_defs const_defs fs_accepted_def source_msg_def
        destination_msg_def Let_def split: sum.splits prod.splits)

theorem check_is_cifs_accepts_iff_witness:
  "fst (check_is_cifs smb_world 3 4 init_state) \<and>
   stderr (snd (check_is_cifs smb_world 3 4 init_state)) = [] \<and>
   \<not> fst (check_is_cifs ext4_world 3 4 init_state) \<and>
   stderr (snd (check_is_cifs ext4_world 3 4 init_state)) =
     [''source file system is not CIFS/SMB2!\<newline>'']"
  using check_is_cifs_accepts_iff [of smb_world 3 4 init_state]
        check_is_cifs_accepts_iff [of ext4_world 3 4 init_state]
  by (simp add: fs_accepted_def source_msg_def world_defs init_state_def)

text \<open>
  Claim C7. When \<open>stat\<close> of \<open>dst\<close> fails with \<open>ENOENT\<close>, \<open>open_dest\<close> opens \<open>dst\<close> with
  \<open>O_CREAT | O_WRONLY\<close> (write-only; neither \<open>O_EXCL\<close> nor \<open>O_TRUNC\<close>) and mode 0644 and
  returns the new descriptor. When that open fails, or \<open>stat\<close> failed with another error
  (then nothing is opened), it returns -1 and reports the system error.
\<close>

theorem open_dest_absent:
  assumes "w_stat w dst = Inl e"
  shows "open_dest w src dst s =
     (if e = ENOENT
      then (case w_open w dst {O_CREAT, O_WRONLY} (Some MODE_0644) of
              Inr fd \<Rightarrow>
                Ret (int fd, src)
                  (s\<lparr>errno := ENOENT,
                      trace := trace s @ [EvStat dst (Inl ENOENT),
                                 EvOpen dst {O_CREAT, O_WRONLY} (Some MODE_0644) (Inr fd)]\<rparr>)
            | Inl e' \<Rightarrow>
                Ret (-1, src)
                  (s\<lparr>errno := e',
                      trace := trace s @ [EvStat dst (Inl ENOENT),
                                 EvOpen dst {O_CREAT, O_WRONLY} (Some MODE_0644) (Inl e')],
                      stderr := stderr s @ [failed_to_create w dst e']\<rparr>))
      else Ret (-1, src)
             (s\<lparr>errno := e, trace := trace s @ [EvStat dst (Inl e)],
                 stderr := stderr s @ [failed_to_create w dst e]\<rparr>))"
  using assms
  by (simp add: open_dest_def sys_defs failed_to_create_def Let_def split: sum.splits)

theorem open_dest_absent_witness:
  "w_stat smb_world ''/mnt/b/g'' = Inl ENOENT \<and>
   open_dest smb_world ''/mnt/a/f'' ''/mnt/b/g'' init_state =
     Ret (4, ''/mnt/a/f'')
       \<lparr>errno = 2,
          trace = [EvStat ''/mnt/b/g'' (Inl 2),
                   EvOpen ''/mnt/b/g'' {O_CREAT, O_WRONLY} (Some 420) (Inr 4)],
          stderr = [], allocs = 0\<rparr> \<and>
   w_stat noaccess_world ''/mnt/c/g'' = Inl 13 \<and>
   open_dest noaccess_world ''/mnt/a/f'' ''/mnt/c/g'' init_state =
     Ret (-1, ''/mnt/a/f'')
       \<lparr>errno = 13, trace = [EvStat ''/mnt/c/g'' (Inl 13)],
          stderr = [''failed to create /mnt/c/g: Permission denied\<newline>''], allocs = 0\<rparr>"
proof -
  have h1: "w_stat smb_world ''/mnt/b/g'' = Inl ENOENT"
    by (simp add: world_defs)
  have h2: "w_stat noaccess_world ''/mnt/c/g'' = Inl 13"
    by (simp add: world_defs)
  show ?thesis
    using h1 h2 open_dest_absent [OF h1, of "''/mnt/a/f''" init_state]
      open_dest_absent [OF h2, of "''/mnt/a/f''" init_state]
    by (simp add: world_defs const_defs init_state_def failed_to_create_def)
qed

text \<open>
  Claim C8. When \<open>dst\<close> exists and is a directory (and the path can be allocated),
  \<open>open_dest\<close> opens \<open>dst/basename(src)\<close> with \<open>O_CREAT | O_WRONLY\<close> and mode 0644 and
  returns that descriptor; it returns -1 exactly when that open fails.
\<close>

theorem open_dest_directory:
  assumes "w_stat w dst = Inr st" and "st_mode st AND S_IFMT = S_IFDIR"
    and "w_alloc_ok w (allocs s)" and "w_basename w src = (fname, src')"
  shows "open_dest w src dst s =
     (case w_open w (dst @ ''/'' @ fname) {O_CREAT, O_WRONLY} (Some MODE_0644) of
        Inr fd \<Rightarrow>
          Ret (int fd, src')
            (s\<lparr>trace := trace s @ [EvStat dst (Inr st),
                         EvOpen (dst @ ''/'' @ fname) {O_CREAT, O_WRONLY} (Some MODE_0644) (Inr fd)],
                allocs := Suc (allocs s)\<rparr>)
      | Inl e \<Rightarrow>
          Ret (-1, src')
            (s\<lparr>errno := e,
                trace := trace s @ [EvStat dst (Inr st),
                         EvOpen (dst @ ''/'' @ fname) {O_CREAT, O_WRONLY} (Some MODE_0644) (Inl e)],
                stderr := stderr s @ [''failed to create '' @ w_freed w (dst @ ''/'' @ fname)
                            @ '': '' @ w_strerror w e @ ''\<newline>''],
                allocs := Suc (allocs s)\<rparr>)) \<and>
     (\<forall>b p s'. open_dest w src dst s = Ret (b, p) s' \<longrightarrow>
        (b = -1) = isl (w_open w (dst @ ''/'' @ fname) {O_CREAT, O_WRONLY} (Some MODE_0644)))"
  using assms
  by (auto simp: open_dest_def xasprintf_def sys_defs Let_def split: sum.splits)

theorem open_dest_directory_witness:
  "w_stat smb_world ''/mnt/b'' = Inr \<lparr>st_mode = 0x41ED\<rparr> \<and>
   (0x41ED :: 32 word) AND S_IFMT = S_IFDIR \<and>
   w_basename smb_world ''/mnt/a/f'' = (''f'', ''/mnt/a/f'') \<and>
   open_dest smb_world ''/mnt/a/f'' ''/mnt/b'' init_state =
     Ret (4, ''/mnt/a/f'')
       \<lparr>errno = 0,
          trace = [EvStat ''/mnt/b'' (Inr \<lparr>st_mode = 0x41ED\<rparr>),
                   EvOpen ''/mnt/b/f'' {O_CREAT, O_WRONLY} (Some 420) (Inr 4)],
          stderr = [], allocs = 1\<rparr>"
proof -
  have h1: "w_stat smb_world ''/mnt/b'' = Inr \<lparr>st_mode = 0x41ED\<rparr>"
    by (simp add: world_defs)
  have h2: "st_mode \<lparr>st_mode = 0x41ED\<rparr> AND S_IFMT = S_IFDIR"
    by (simp add: const_defs)
  have h3: "w_alloc_ok smb_world (allocs init_state)"
    by (simp add: world_defs)
  have h4: "w_basename smb_world ''/mnt/a/f'' = (''f'', ''/mnt/a/f'')"
    by (simp add: world_defs)
  show ?thesis
    using h1 h2 h4 open_dest_directory [OF h1 h2 h3 h4]
    by (simp add: world_defs const_defs init_state_def)
qed

text \<open>
  Claim C9 (a defect of the code, the one of claim C4). A run reaches the close phase
  with both closes succeeding and returns 0 although a step before, the \<open>unlink\<close>, failed:
  on that path \<open>ret\<close> is never assigned, and here it held 0.
\<close>

theorem exit_zero_after_failed_unlink:
  "main 0 [''smb2mv'', ''/mnt/a/f'', ''/mnt/b''] eperm_unlink_world =
     Ret 0
       \<lparr>errno = 1,
          trace =
            [EvOpen ''/mnt/a/f'' {O_RDWR} None (Inr 3),
             EvStat ''/mnt/b'' (Inr \<lparr>st_mode = 0x41ED\<rparr>),
             EvOpen ''/mnt/b/f'' {O_CREAT, O_WRONLY} (Some 420) (Inr 4),
             EvFstatfs 3 (Inr \<lparr>f_type = 0xFE534D42\<rparr>),
             EvFstatfs 4 (Inr \<lparr>f_type = 0xFE534D42\<rparr>),
             EvIoctl 4 0x4004CF03 3 (Inr ()),
             EvUnlink ''/mnt/a/f'' (Inl 1),
             EvClose 4 (Inr ()), EvClose 3 (Inr ())],
          stderr = [''unable to remove source file: Operation not permitted\<newline>''],
          allocs = 3\<rparr>"
  by (simp add: run_defs sys_defs const_defs world_defs)

text \<open>
  Claim C10. SRC is opened with \<open>O_RDWR\<close>. So when the caller cannot write SRC (the
  kernel refuses to open it write-only or read-write), the run fails at that open: it returns 1 and the refused open is its only system call, so no destination
  path is touched and no destination file is created. (The two \<open>strdup\<close> calls succeed.)
\<close>

theorem unwritable_source_fails_at_open:
  assumes "denies_write w src" and "w_alloc_ok w 0" and "w_alloc_ok w 1"
  shows "\<exists>e. w_open w src {O_RDWR} None = Inl e \<and>
             main ret [prog, src, dst] w =
               Ret 1 \<lparr>errno = e, trace = [EvOpen src {O_RDWR} None (Inl e)],
                        stderr = [''failed to open '' @ src @ '': '' @ w_strerror w e @ ''\<newline>''],
                        allocs = 2\<rparr>"
proof -
  from assms(1) have "isl (w_open w src {O_RDWR} None)"
    by (simp add: denies_write_def)
  then obtain e where e: "w_open w src {O_RDWR} None = Inl e"
    by (cases "w_open w src {O_RDWR} None") simp_all
  have "main ret [prog, src, dst] w =
          Ret 1 \<lparr>errno = e, trace = [EvOpen src {O_RDWR} None (Inl e)],
                   stderr = [''failed to open '' @ src @ '': '' @ w_strerror w e @ ''\<newline>''],
                   allocs = 2\<rparr>"
    using assms(2,3) e
    by (simp add: main_def init_state_def xstrdup_def sys_defs Let_def)
  with e show ?thesis by blast
qed

theorem unwritable_source_fails_at_open_witness:
  "denies_write readonly_world ''/mnt/a/f'' \<and>
   main 0 [''smb2mv'', ''/mnt/a/f'', ''/mnt/b/g''] readonly_world =
     Ret 1 \<lparr>errno = 13, trace = [EvOpen ''/mnt/a/f'' {O_RDWR} None (Inl 13)],
              stderr = [''failed to open /mnt/a/f: Permission denied\<newline>''], allocs = 2\<rparr>"
proof -
  have h: "denies_write readonly_world ''/mnt/a/f''"
    by (simp add: denies_write_def world_defs)
  have a: "w_alloc_ok readonly_world 0" "w_alloc_ok readonly_world 1"
    by (simp_all add: world_defs)
  have o: "w_open readonly_world ''/mnt/a/f'' {O_RDWR} None = Inl 13"
    by (simp add: world_defs)
  show ?thesis
    using h unwritable_source_fails_at_open [OF h a, of 0 "''smb2mv''" "''/mnt/b/g''"]
    by (simp add: o world_defs)
qed

end
